theory Spec2Isabelle
  imports Main
begin

section \<open>Strings, paths and the regular expressions of bundle.js\<close>

text \<open>
  JavaScript strings are modelled as \<open>string\<close>. The double quote and the newline are
  written by their codes.
\<close>

definition dq :: char where
  "dq = CHR 0x22"

definition nl :: char where
  "nl = CHR 0x0A"

text \<open>The class \<open>\w\<close> of a JavaScript regular expression: \<open>[A-Za-z0-9_]\<close>.\<close>

definition is_word :: "char \<Rightarrow> bool" where
  "is_word c \<longleftrightarrow>
     (let n = (of_char c :: int) in
        (48 \<le> n \<and> n \<le> 57) \<or> (65 \<le> n \<and> n \<le> 90) \<or> n = 95 \<or> (97 \<le> n \<and> n \<le> 122))"

text \<open>\<open>is_ext s\<close>: the whole of \<open>s\<close> matches \<open>\.\w+\<close>.\<close>

definition is_ext :: "string \<Rightarrow> bool" where
  "is_ext s = (case s of [] \<Rightarrow> False | c # w \<Rightarrow> c = CHR ''.'' \<and> w \<noteq> [] \<and> list_all is_word w)"

text \<open>
  \<open>s.replace(rExt, rep)\<close> with \<open>rExt = /(\.\w+)?$/\<close> (bundle.js line 17). The regular
  expression is not global, so the leftmost match is replaced. At a position the match
  succeeds when the rest of the string is \<open>\.\w+\<close>, or when the rest is empty (the
  optional group matches nothing and \<open>$\<close> holds). The replacement text is inserted as
  it is: it is a dot, a content hash of hexadecimal digits and a format, or \<open>.css\<close>, and
  holds no \<open>$\<close> pattern.
\<close>

fun replace_rExt :: "string \<Rightarrow> string \<Rightarrow> string" where
  "replace_rExt [] rep = rep"
| "replace_rExt (c # cs) rep = (if is_ext (c # cs) then rep else c # replace_rExt cs rep)"

text \<open>
  \<open>path.extname\<close> of Node (POSIX): trailing slashes are dropped, the last path segment
  is taken, and the extension runs from its last dot to its end; there is none when the
  segment has no dot, when its only dot is its first character, or when it is \<open>..\<close>.
\<close>

definition strip_slashes :: "string \<Rightarrow> string" where
  "strip_slashes p = rev (dropWhile (\<lambda>c. c = CHR ''/'') (rev p))"

definition basename :: "string \<Rightarrow> string" where
  "basename p = rev (takeWhile (\<lambda>c. c \<noteq> CHR ''/'') (rev (strip_slashes p)))"

definition extname :: "string \<Rightarrow> string" where
  "extname p =
     (let b = basename p;
          e = rev (takeWhile (\<lambda>c. c \<noteq> CHR ''.'') (rev b))
      in if CHR ''.'' \<notin> set b then []
         else if length e + 1 = length b then []
         else if b = ''..'' then []
         else CHR ''.'' # e)"

text \<open>\<open>JSON.stringify\<close> of a string: quoted, with the escapes of ECMA-262.\<close>

definition hex_char :: "nat \<Rightarrow> char" where
  "hex_char n = ''0123456789abcdef'' ! (n mod 16)"

definition json_escape :: "char \<Rightarrow> string" where
  "json_escape c =
     (let n = (of_char c :: int) in
      if c = dq then [CHR 0x5C, dq]
      else if n = 0x5C then [CHR 0x5C, CHR 0x5C]
      else if n = 8 then [CHR 0x5C, CHR ''b'']
      else if n = 12 then [CHR 0x5C, CHR ''f'']
      else if n = 10 then [CHR 0x5C, CHR ''n'']
      else if n = 13 then [CHR 0x5C, CHR ''r'']
      else if n = 9 then [CHR 0x5C, CHR ''t'']
      else if n < 32 then [CHR 0x5C, CHR ''u'', CHR ''0'', CHR ''0'', hex_char (nat n div 16), hex_char (nat n)]
      else [c])"

definition json_string :: "string \<Rightarrow> string" where
  "json_string s = dq # concat (map json_escape s) @ [dq]"

text \<open>\<open>lines.join('\n')\<close>.\<close>

fun join_nl :: "string list \<Rightarrow> string" where
  "join_nl [] = []"
| "join_nl [x] = x"
| "join_nl (x # y # ys) = x @ nl # join_nl (y # ys)"

section \<open>Modules, packets and bundles\<close>

text \<open>
  The formats are the keys of \<open>extMap\<close> (bundle.js lines 11 to 15); \<open>extMap[format]\<close>
  is undefined for anything else.
\<close>

datatype format = Js | Css | Wasm

fun format_ext :: "format \<Rightarrow> string" where
  "format_ext Js = ''.js''"
| "format_ext Css = ''.css''"
| "format_ext Wasm = ''.wasm''"

fun extMap :: "format \<Rightarrow> string list" where
  "extMap Js = [''.js'', ''.jsx'', ''.ts'', ''.tsx'', ''.json'']"
| "extMap Wasm = [''.wasm'']"
| "extMap Css = [''.css'', ''.less'']"

datatype scope = ScopeModule | ScopePacket | ScopeAll

type_synonym mref = nat
type_synonym pref = nat
type_synonym bref = nat
type_synonym config = "(string \<times> string) list"

text \<open>
  A module object. Modules refer to their children by reference (an index into the
  list of all module objects), so that the graph may have cycles. \<open>m_instance\<close> is the
  outcome of \<open>entry instanceof Module\<close>; \<open>m_code\<close> and \<open>m_minified\<close> are what
  \<open>mod.obtain()\<close> and \<open>mod.minify()\<close> return as code, \<open>m_source\<close> is
  \<open>path.relative(app.root, mod.fpath)\<close>, and \<open>m_lock\<close> is \<open>JSON.stringify(mod.lock)\<close>.
\<close>

record module =
  m_id :: string
  m_file :: string
  m_source :: string
  m_packet :: pref
  m_children :: "mref list"
  m_instance :: bool
  m_preloaded :: bool
  m_isolated :: bool
  m_isRootEntry :: bool
  m_isPreload :: bool
  m_isWorker :: bool
  m_fake :: bool
  m_lock :: string
  m_code :: string
  m_minified :: string

text \<open>
  A packet. \<open>p_ref\<close> is the identity of the object (compared by \<open>mod.packet !== packet\<close>),
  \<open>p_entries\<close> lists \<open>packet.entries\<close> in the order of \<open>Object.keys\<close>, and \<open>p_lock\<close> is
  \<open>JSON.stringify(packet.lock)\<close>.
\<close>

record packet =
  p_ref :: pref
  p_name :: string
  p_version :: string
  p_dir :: string
  p_main :: string
  p_parent :: "pref option"
  p_isolated :: bool
  p_files :: "string \<rightharpoonup> mref"
  p_entries :: "(string \<times> mref) list"
  p_bundles :: "string \<rightharpoonup> bref"
  p_lock :: string
  p_loaderConfig :: config

text \<open>
  The module graph: every module object, and the references of the packets whose
  \<open>isolated\<close> flag is set.
\<close>

record graph =
  g_modules :: "module list"
  g_isolated :: "pref list"

definition module_at :: "graph \<Rightarrow> mref \<Rightarrow> module option" where
  "module_at g r = (if r < length (g_modules g) then Some (g_modules g ! r) else None)"

text \<open>\<open>packet.files[name]\<close>; \<open>None\<close> is \<open>undefined\<close>.\<close>

definition files_at :: "graph \<Rightarrow> (string \<rightharpoonup> mref) \<Rightarrow> string \<Rightarrow> module option" where
  "files_at g files name = (case files name of None \<Rightarrow> None | Some r \<Rightarrow> module_at g r)"

record app =
  a_root :: string
  a_preload :: "string list"
  a_cache_path :: string

text \<open>
  A bundle with its private fields. \<open>b_etag\<close> holds the entries that
  \<open>JSON.stringify({ entries })\<close> was computed from; \<open>b_map\<close> holds the sources of the
  source map; \<open>b_reloading\<close> is the handle of the timer set by \<open>reload\<close>.
\<close>

record "bundle" =
  b_packet :: pref
  b_entries :: "string list option"
  b_code :: "string option"
  b_map :: "string list option"
  b_etag :: "string list option"
  b_contenthash :: "string option"
  b_reloading :: "nat option"
  b_loaderConfig :: "config option"
  b_loaderCache :: "string \<rightharpoonup> string"
  b_scope :: scope
  b_format :: format
  b_updatedAt :: "nat option"

datatype error = Error string | TypeError string

section \<open>The traversal of a bundle\<close>

text \<open>
  What the generator of \<open>[Symbol.iterator]\<close> closes over and reads: the module
  objects behind the references, the owning packet (its identity, its \<open>isolated\<close>
  flag, its \<open>files\<close> and its \<open>dir\<close>), the scope and the format.
\<close>

record walk =
  w_graph :: graph
  w_packet :: pref
  w_isolated :: bool
  w_files :: "string \<rightharpoonup> mref"
  w_dir :: string
  w_scope :: scope
  w_format :: format

text \<open>The tests of \<open>iterate\<close> after the one on \<open>done\<close> (bundle.js lines 111 to 118).\<close>

definition excluded :: "walk \<Rightarrow> bool \<Rightarrow> module \<Rightarrow> bool" where
  "excluded c preload m \<longleftrightarrow>
     (w_format c = Js \<and>
       ((m_packet m \<noteq> w_packet c \<and> w_scope c \<noteq> ScopeAll)
        \<or> (m_preloaded m \<and> \<not> preload \<and> \<not> w_isolated c)
        \<or> (m_packet m \<noteq> w_packet c \<and> m_packet m \<in> set (g_isolated (w_graph c)))))
     \<or> m_isolated m"

text \<open>\<open>extensions.includes(path.extname(entry.file))\<close>.\<close>

definition emitted :: "walk \<Rightarrow> module \<Rightarrow> bool" where
  "emitted c m \<longleftrightarrow> extname (m_file m) \<in> set (extMap (w_format c))"

text \<open>
  \<open>iterate\<close> and \<open>iterateEntry\<close> (bundle.js lines 108 to 129). The state is the object
  \<open>done\<close>, as the set of its keys, and the modules yielded so far. A child reference
  that points to no module object cannot arise in the program; the model passes over it.
\<close>

function iterate :: "walk \<Rightarrow> bool \<Rightarrow> mref list \<Rightarrow> string set \<times> module list \<Rightarrow> string set \<times> module list"
  and iterateEntry :: "walk \<Rightarrow> bool \<Rightarrow> module \<Rightarrow> string set \<times> module list \<Rightarrow> string set \<times> module list"
where
  "iterate c preload [] st = st"
| "iterate c preload (r # rs) st =
     (case module_at (w_graph c) r of
        None \<Rightarrow> iterate c preload rs st
      | Some m \<Rightarrow>
          if m_id m \<in> fst st \<or> excluded c preload m then iterate c preload rs st
          else iterate c preload rs (iterateEntry c preload m st))"
| "iterateEntry c preload entry st =
     (let st1 = iterate c preload (m_children entry) (insert (m_id entry) (fst st), snd st);
          st2 = (if emitted c entry then (fst st1, snd st1 @ [entry]) else st1)
      in if w_format c = Js then iterate c preload (m_children entry) st2 else st2)"
  by pat_completeness auto

text \<open>Termination: the keys of \<open>done\<close> only grow, and every descent adds one.\<close>

lemma done_grows:
  "iterate_iterateEntry_dom (Inl (c, preload, rs, st)) \<Longrightarrow> fst st \<subseteq> fst (iterate c preload rs st)"
  "iterate_iterateEntry_dom (Inr (c, preload, entry, st)) \<Longrightarrow>
     fst st \<subseteq> fst (iterateEntry c preload entry st)"
proof (induct rule: iterate_iterateEntry.pinduct)
  case (1 c preload st)
  then show ?case by (simp add: iterate.psimps)
next
  case (2 c preload r rs st)
  show ?case
  proof (cases "module_at (w_graph c) r")
    case None
    with 2 show ?thesis by (simp add: iterate.psimps)
  next
    case (Some m)
    note at = this
    show ?thesis
    proof (cases "m_id m \<in> fst st \<or> excluded c preload m")
      case True
      with 2 at show ?thesis by (simp add: iterate.psimps)
    next
      case False
      from 2(4)[OF at False] 2(5)[OF at False]
      have "fst st \<subseteq> fst (iterate c preload rs (iterateEntry c preload m st))"
        by (rule subset_trans)
      with 2(1) at False show ?thesis by (simp add: iterate.psimps)
    qed
  qed
next
  case (3 c preload entry st)
  let ?st1 = "iterate c preload (m_children entry) (insert (m_id entry) (fst st), snd st)"
  let ?st2 = "if emitted c entry then (fst ?st1, snd ?st1 @ [entry]) else ?st1"
  have a: "fst st \<subseteq> fst ?st1" using 3(2) by auto
  have b: "fst ?st2 = fst ?st1" by simp
  show ?case
  proof (cases "w_format c = Js")
    case True
    from 3(3)[OF refl refl True]
    have "fst ?st2 \<subseteq> fst (iterate c preload (m_children entry) ?st2)" .
    with a b have "fst st \<subseteq> fst (iterate c preload (m_children entry) ?st2)" by blast
    with 3(1) True show ?thesis by (simp add: iterateEntry.psimps Let_def)
  next
    case False
    with 3(1) a b show ?thesis by (simp add: iterateEntry.psimps Let_def)
  qed
qed

definition pending :: "walk \<Rightarrow> string set \<Rightarrow> nat" where
  "pending c done = card (m_id ` set (g_modules (w_graph c)) - done)"

lemma pending_mono: "d \<subseteq> d' \<Longrightarrow> pending c d' \<le> pending c d"
  unfolding pending_def by (rule card_mono) auto

lemma pending_less:
  assumes "module_at (w_graph c) r = Some m" and "m_id m \<notin> d"
  shows "pending c (insert (m_id m) d) < pending c d"
proof -
  let ?A = "m_id ` set (g_modules (w_graph c))"
  from assms(1) have "m \<in> set (g_modules (w_graph c))"
    by (auto simp: module_at_def split: if_splits)
  with assms(2) have "m_id m \<in> ?A - d" by auto
  moreover have "m_id m \<notin> ?A - insert (m_id m) d" by simp
  moreover have "?A - insert (m_id m) d \<subseteq> ?A - d" by auto
  ultimately have "?A - insert (m_id m) d \<subset> ?A - d" by blast
  then show ?thesis unfolding pending_def by (intro psubset_card_mono) auto
qed

termination iterate
proof (relation "inv_image (less_than <*lex*> less_than <*lex*> less_than) (\<lambda>x. case x of
          Inl (c, preload, rs, st) \<Rightarrow> (pending c (fst st), 0::nat, length rs)
        | Inr (c, preload, entry, st) \<Rightarrow> (pending c (insert (m_id entry) (fst st)), 1, 0))",
       goal_cases)
  case 1
  show ?case by (intro wf_inv_image wf_lex_prod wf_less_than)
next
  case (2 c preload r rs st)
  then show ?case by simp
next
  case (3 c preload r rs st m)
  then show ?case by simp
next
  case (4 c preload r rs st m)
  then show ?case using pending_less[of c r m "fst st"] by simp
next
  case (5 c preload r rs st m)
  from done_grows(2)[OF 5(3)]
  have "pending c (fst (iterateEntry c preload m st)) \<le> pending c (fst st)"
    by (rule pending_mono)
  then show ?case by auto
next
  case (6 c preload entry st)
  then show ?case by simp
next
  case (7 c preload entry st x xa)
  from done_grows(1)[OF 7(4)]
  have "pending c (fst x) \<le> pending c (insert (m_id entry) (fst st))"
    using 7(1) pending_mono[of "insert (m_id entry) (fst st)" "fst x" c] by simp
  moreover have "fst xa = fst x" using 7(2) by simp
  ultimately show ?case by auto
qed

declare iterateEntry.simps [simp del]

text \<open>
  The getter \<open>entries\<close> (bundle.js lines 148 to 155): the private field when it is
  set, otherwise the keys of \<open>packet.entries\<close> that end with \<open>.js\<close> and are no
  root entries.
\<close>

definition endsWith :: "string \<Rightarrow> string \<Rightarrow> bool" where
  "endsWith s suffix \<longleftrightarrow> length suffix \<le> length s \<and> drop (length s - length suffix) s = suffix"

definition entries :: "graph \<Rightarrow> packet \<Rightarrow> bundle \<Rightarrow> string list" where
  "entries g pk b =
     (case b_entries b of
        Some es \<Rightarrow> es
      | None \<Rightarrow>
          map fst (filter (\<lambda>(file, r). endsWith file ''.js'' \<and>
                     (case module_at g r of None \<Rightarrow> False | Some m \<Rightarrow> \<not> m_isRootEntry m))
                   (p_entries pk)))"

text \<open>\<open>getEntry\<close> (bundle.js lines 19 to 21); \<open>None\<close> is \<open>undefined\<close>.\<close>

definition getEntry :: "packet \<Rightarrow> string list option \<Rightarrow> string option" where
  "getEntry pk es =
     (case es of
        None \<Rightarrow> Some (p_main pk)
      | Some xs \<Rightarrow>
          if length xs = 1 \<or> p_parent pk = None
          then (case xs of [] \<Rightarrow> None | x # _ \<Rightarrow> Some x)
          else Some (p_main pk))"

definition entry :: "packet \<Rightarrow> bundle \<Rightarrow> string option" where
  "entry pk b = getEntry pk (b_entries b)"

text \<open>The loop over the entries (bundle.js lines 131 to 145).\<close>

fun iterate_entries ::
  "walk \<Rightarrow> string list \<Rightarrow> string set \<times> module list \<Rightarrow> error + string set \<times> module list" where
  "iterate_entries c [] st = Inr st"
| "iterate_entries c (name # names) st =
     (case files_at (w_graph c) (w_files c) name of
        None \<Rightarrow> Inl (Error (''unparsed entry '' @ name @ '' ('' @ w_dir c @ '')''))
      | Some e \<Rightarrow>
          if \<not> m_instance e then iterate_entries c names st
          else iterate_entries c names
                 (iterateEntry c (m_isPreload e \<or> m_fake e \<or> m_isWorker e) e st))"

definition walk_of :: "graph \<Rightarrow> packet \<Rightarrow> bundle \<Rightarrow> walk" where
  "walk_of g pk b =
     \<lparr>w_graph = g, w_packet = p_ref pk, w_isolated = p_isolated pk, w_files = p_files pk,
      w_dir = p_dir pk, w_scope = b_scope b, w_format = b_format b\<rparr>"

text \<open>\<open>[Symbol.iterator]\<close>: the modules in the order they are yielded, or the error thrown.\<close>

definition Symbol_iterator :: "graph \<Rightarrow> packet \<Rightarrow> bundle \<Rightarrow> error + module list" where
  "Symbol_iterator g pk b =
     (case iterate_entries (walk_of g pk b) (entries g pk b) ({}, []) of
        Inl e \<Rightarrow> Inl e
      | Inr st \<Rightarrow> Inr (snd st))"

section \<open>What the bundle takes from outside\<close>

text \<open>
  Functions that bundle.js calls and that are not part of it: \<open>packet.parseLoader\<close>,
  the code that \<open>UglifyJS.minify\<close> returns for the loader, the serialisation of a
  loader configuration by \<open>URLSearchParams\<close>, and the md5 digest read as a
  number (its sixteen bytes, the first one the most significant).
\<close>

record env =
  parseLoader :: "config \<Rightarrow> string"
  uglify :: "string \<Rightarrow> string"
  searchParams :: "config \<Rightarrow> string"
  md5 :: "string \<Rightarrow> int"

text \<open>\<open>digest('hex')\<close>: the sixteen bytes of the digest as 32 hexadecimal digits.\<close>

definition digest_hex :: "int \<Rightarrow> string" where
  "digest_hex w = map (\<lambda>i. hex_char (nat (w div 16 ^ (31 - i) mod 16))) [0..<32]"

text \<open>
  \<open>path.join\<close> of Node (POSIX): the arguments that are not empty are joined by a slash
  and the result is normalised: empty segments and \<open>.\<close> are dropped, \<open>..\<close> removes
  the segment before it, or stays when the path is relative and nothing is left to
  remove.
\<close>

fun split_slash :: "string \<Rightarrow> string list" where
  "split_slash [] = [[]]"
| "split_slash (c # cs) =
     (if c = CHR ''/'' then [] # split_slash cs
      else (case split_slash cs of [] \<Rightarrow> [[c]] | w # ws \<Rightarrow> (c # w) # ws))"

fun join_slash :: "string list \<Rightarrow> string" where
  "join_slash [] = []"
| "join_slash [x] = x"
| "join_slash (x # y # ys) = x @ CHR ''/'' # join_slash (y # ys)"

text \<open>One segment; \<open>res\<close> holds the segments kept so far, the last one first.\<close>

definition normalize_step :: "bool \<Rightarrow> string list \<Rightarrow> string \<Rightarrow> string list" where
  "normalize_step allowAboveRoot res seg =
     (if seg = [] \<or> seg = ''.'' then res
      else if seg = ''..'' then
        (case res of
           [] \<Rightarrow> if allowAboveRoot then [''..''] else []
         | seg0 # rest \<Rightarrow>
             if seg0 \<noteq> ''..'' then rest
             else if allowAboveRoot then ''..'' # res else res)
      else seg # res)"

definition normalizeString :: "string \<Rightarrow> bool \<Rightarrow> string" where
  "normalizeString p allowAboveRoot =
     join_slash (rev (foldl (normalize_step allowAboveRoot) [] (split_slash p)))"

definition path_normalize :: "string \<Rightarrow> string" where
  "path_normalize p =
     (if p = [] then ''.''
      else
        let isAbsolute = (hd p = CHR ''/'');
            trailingSeparator = (last p = CHR ''/'');
            q = normalizeString p (\<not> isAbsolute)
        in if q = [] then (if isAbsolute then ''/'' else if trailingSeparator then ''./'' else ''.'')
           else (if isAbsolute then ''/'' else []) @ q @ (if trailingSeparator then ''/'' else []))"

definition path_join :: "string list \<Rightarrow> string" where
  "path_join args =
     (case filter (\<lambda>a. a \<noteq> []) args of
        [] \<Rightarrow> ''.''
      | xs \<Rightarrow> path_normalize (join_slash xs))"

text \<open>
  A path whose segments are all names: none is empty, \<open>.\<close> or \<open>..\<close>. Such a path
  is relative and has no trailing slash.
\<close>

definition clean_segment :: "string \<Rightarrow> bool" where
  "clean_segment seg \<longleftrightarrow> seg \<noteq> [] \<and> seg \<noteq> ''.'' \<and> seg \<noteq> ''..''"

definition clean_path :: "string \<Rightarrow> bool" where
  "clean_path p \<longleftrightarrow> list_all clean_segment (split_slash p)"

section \<open>The getters of the output name\<close>

text \<open>
  \<open>contenthash\<close> (bundle.js lines 174 to 181). The getter stores the hash in the
  private field, so it returns the bundle as well.
\<close>

definition contenthash :: "env \<Rightarrow> bundle \<Rightarrow> string \<times> bundle" where
  "contenthash ev b =
     (case b_code b of
        None \<Rightarrow> ([], b)
      | Some code \<Rightarrow>
          if code = [] then ([], b)
          else if b_contenthash b = None \<or> b_contenthash b = Some []
          then (let h = take 8 (digest_hex (md5 ev code)) in (h, b\<lparr>b_contenthash := Some h\<rparr>))
          else (case b_contenthash b of None \<Rightarrow> ([], b) | Some h \<Rightarrow> (h, b)))"

text \<open>
  The private field \<open>#contenthash\<close> is written by the getter and cleared wherever
  \<open>#code\<close> is written, so when it is set it holds the hash of the code.
\<close>

definition hash_consistent :: "env \<Rightarrow> bundle \<Rightarrow> bool" where
  "hash_consistent ev b \<longleftrightarrow>
     (case b_contenthash b of
        None \<Rightarrow> True
      | Some h \<Rightarrow>
          (case b_code b of
             None \<Rightarrow> True
           | Some code \<Rightarrow> h = [] \<or> code = [] \<or> h = take 8 (digest_hex (md5 ev code))))"

text \<open>
  \<open>output\<close> (bundle.js lines 166 to 172). \<open>entry.replace\<close> throws a TypeError when
  \<open>entry\<close> is undefined.
\<close>

definition "output" :: "env \<Rightarrow> graph \<Rightarrow> packet \<Rightarrow> bundle \<Rightarrow> (error + string) \<times> bundle" where
  "output ev g pk b =
     (if entries g pk b = [] \<or> b_code b = None \<or> b_code b = Some [] then (Inr [], b)
      else
        (case entry pk b of
           None \<Rightarrow> (Inl (TypeError ''Cannot read properties of undefined (reading replace)''), b)
         | Some e \<Rightarrow>
             (let hb = contenthash ev b
              in (Inr (replace_rExt e (''.'' @ fst hb @ format_ext (b_format b))), snd hb))))"

text \<open>\<open>outputPath\<close> (bundle.js lines 183 to 188).\<close>

definition outputPath :: "env \<Rightarrow> graph \<Rightarrow> packet \<Rightarrow> bundle \<Rightarrow> (error + string) \<times> bundle" where
  "outputPath ev g pk b =
     (case output ev g pk b of
        (Inl e, b') \<Rightarrow> (Inl e, b')
      | (Inr out, b') \<Rightarrow>
          (Inr (if p_parent pk \<noteq> None then path_join [p_name pk, p_version pk, out] else out), b'))"

section \<open>Bundle.obtain\<close>

text \<open>
  The options of \<open>obtain\<close>: \<open>loader\<close> is undefined (\<open>None\<close>), true or false;
  \<open>minify\<close> defaults to false. The result holds the code and the sources of the source
  map; both are read from the private fields when the cached result is returned.
\<close>

record options =
  o_loader :: "bool option"
  o_minify :: bool

record result =
  r_code :: "string option"
  r_map :: "string list option"

text \<open>
  A child of the SourceNode: its source, when it has one, and its text.
  \<open>createSourceNode\<close> builds a node whose text is the code it is given, from the
  source map or line by line.
\<close>

type_synonym chunk = "string option \<times> string"

definition createSourceNode :: "string \<Rightarrow> string \<Rightarrow> chunk" where
  "createSourceNode source code = (Some source, code)"

definition module_node :: "options \<Rightarrow> module \<Rightarrow> chunk" where
  "module_node opts m = createSourceNode (m_source m) (if o_minify opts then m_minified m else m_code m)"

definition lock_node :: "app \<Rightarrow> packet \<Rightarrow> module \<Rightarrow> chunk" where
  "lock_node ap pk m =
     (None, ''Object.assign(porter.lock, ''
            @ (if a_preload ap \<noteq> [] \<and> m_fake m then m_lock m else p_lock pk) @ '')'')"

definition import_node :: "module \<Rightarrow> chunk" where
  "import_node m = (None, ''porter['' @ [dq] @ ''import'' @ [dq] @ '']('' @ json_string (m_id m) @ '')'')"

text \<open>\<open>node.join('\n').toStringWithSourceMap({ sourceRoot: '/' })\<close>.\<close>

definition toStringWithSourceMap :: "chunk list \<Rightarrow> result" where
  "toStringWithSourceMap node =
     \<lparr>r_code = Some (join_nl (map snd node)), r_map = Some (List.map_filter fst node)\<rparr>"

text \<open>\<open>Object.assign(target, source)\<close> on loader configurations; the source may be undefined.\<close>

fun assign_key :: "string \<Rightarrow> string \<Rightarrow> config \<Rightarrow> config" where
  "assign_key k v [] = [(k, v)]"
| "assign_key k v (p # ps) = (if fst p = k then (k, v) # ps else p # assign_key k v ps)"

definition Object_assign :: "config \<Rightarrow> config option \<Rightarrow> config" where
  "Object_assign target source =
     (case source of None \<Rightarrow> target | Some kvs \<Rightarrow> foldl (\<lambda>t (k, v). assign_key k v t) target kvs)"

text \<open>\<open>obtainLoader\<close> and \<open>minifyLoader\<close> (bundle.js lines 210 to 230).\<close>

definition obtainLoader :: "env \<Rightarrow> config \<Rightarrow> string" where
  "obtainLoader ev loaderConfig = parseLoader ev loaderConfig"

definition minifyLoader :: "env \<Rightarrow> config \<Rightarrow> bundle \<Rightarrow> string \<times> bundle" where
  "minifyLoader ev loaderConfig b =
     (let cacheKey = searchParams ev loaderConfig
      in case b_loaderCache b cacheKey of
           Some code \<Rightarrow> (code, b)
         | None \<Rightarrow>
             (let code = uglify ev (parseLoader ev loaderConfig)
              in (code, b\<lparr>b_loaderCache := (b_loaderCache b)(cacheKey \<mapsto> code)\<rparr>)))"

text \<open>
  \<open>obtain\<close> (bundle.js lines 256 to 309). It takes the time of the call, the packet
  and the bundle, and returns the result or the error thrown, with the packet and the
  bundle as it leaves them. \<open>packet.files[entries[0]]\<close> reads the property
  \<open>undefined\<close> when there is no entry. The packing of the other packets (lines 280 to
  285) writes their own artefacts and touches neither this packet nor this bundle.
\<close>

definition "obtain" ::
  "env \<Rightarrow> app \<Rightarrow> graph \<Rightarrow> nat \<Rightarrow> options \<Rightarrow> packet \<times> bundle \<Rightarrow> (error + result) \<times> packet \<times> bundle" where
  "obtain ev ap g now opts s =
     (let pk0 = fst s; b0 = snd s; es = entries g pk0 b0 in
      if b_etag b0 = Some es then (Inr \<lparr>r_code = b_code b0, r_map = b_map b0\<rparr>, pk0, b0)
      else
        (let b = b0\<lparr>b_updatedAt := Some now\<rparr>;
             loaderConfig = Object_assign (p_loaderConfig pk0) (b_loaderConfig b0);
             pk = pk0\<lparr>p_loaderConfig := loaderConfig\<rparr>
         in case Symbol_iterator g pk b of
              Inl e \<Rightarrow> (Inl e, pk, b)
            | Inr mods \<Rightarrow>
                (let node = map (module_node opts) mods;
                     name0 = (case es of [] \<Rightarrow> ''undefined'' | e # _ \<Rightarrow> e)
                 in case files_at g (p_files pk) name0 of
                      None \<Rightarrow>
                        (Inl (if b_format b = Js
                              then Error (''unable to find '' @ name0 @ '' in packet '' @ p_name pk
                                          @ '' v'' @ p_version pk)
                              else TypeError ''Cannot read properties of undefined (reading isRootEntry)''),
                         pk, b)
                    | Some m \<Rightarrow>
                        (let node1 = (if m_isRootEntry m \<and> \<not> m_isPreload m \<and> b_format b = Js
                                      then lock_node ap pk m # node else node);
                             withLoader = (m_isRootEntry m \<and> o_loader opts \<noteq> Some False
                                           \<and> b_format b = Js);
                             lb = (if withLoader
                                   then (if o_minify opts then minifyLoader ev loaderConfig b
                                         else (obtainLoader ev loaderConfig, b))
                                   else ([], b));
                             node2 = (if withLoader
                                      then createSourceNode ''loader.js'' (fst lb) # node1 @ [import_node m]
                                      else node1);
                             res = toStringWithSourceMap node2
                         in (Inr res, pk,
                             (snd lb)\<lparr>b_code := r_code res, b_map := r_map res,
                                       b_etag := Some es, b_contenthash := None\<rparr>)))))"

section \<open>Bundle.reload\<close>











section \<open>Bundle.create\<close>

text \<open>
  The options of \<open>Bundle.create\<close> and of the constructor, the packet apart: the
  entries, the format (undefined when \<open>None\<close>), the loader configuration, \<open>all\<close>
  and \<open>package\<close>.
\<close>

record create_options =
  c_entries :: "string list option"
  c_format :: "format option"
  c_loaderConfig :: "config option"
  c_all :: bool
  c_package :: "bool option"

text \<open>The format chosen when the options give none (bundle.js lines 63 to 65).\<close>

definition default_format :: "string list option \<Rightarrow> format" where
  "default_format es =
     (case es of
        None \<Rightarrow> Js
      | Some xs \<Rightarrow> if extname (case xs of [] \<Rightarrow> [] | x # _ \<Rightarrow> x) = ''.css'' then Css else Js)"

text \<open>The constructor (bundle.js lines 77 to 95).\<close>

definition new_Bundle :: "app \<Rightarrow> packet \<Rightarrow> create_options \<Rightarrow> bundle" where
  "new_Bundle ap pk opts =
     (let fmt = (case c_format opts of None \<Rightarrow> Js | Some f \<Rightarrow> f)
      in \<lparr>b_packet = p_ref pk,
          b_entries = (case c_entries opts of None \<Rightarrow> None | Some xs \<Rightarrow> if xs = [] then None else Some xs),
          b_code = None, b_map = None, b_etag = None, b_contenthash = None, b_reloading = None,
          b_loaderConfig = c_loaderConfig opts, b_loaderCache = Map.empty,
          b_scope = (if a_preload ap \<noteq> [] \<or> c_all opts \<or> fmt = Css then ScopeAll
                     else if c_package opts = Some False then ScopeModule else ScopePacket),
          b_format = fmt, b_updatedAt = None\<rparr>)"

text \<open>
  \<open>Bundle.create\<close> (bundle.js lines 61 to 75). The bundles are objects in a heap, a list
  indexed by reference; \<open>packet.bundles\<close> maps a key to a reference. The call returns
  the reference of the bundle, the options as it leaves them (it sets their format), the
  packet and the heap. \<open>entry.replace\<close> throws a TypeError when \<open>entry\<close> is undefined.
\<close>

definition create ::
  "app \<Rightarrow> create_options \<Rightarrow> packet \<times> bundle list \<Rightarrow> error + bref \<times> create_options \<times> packet \<times> bundle list" where
  "create ap opts s =
     (let pk = fst s; heap = snd s;
          opts1 = (case c_format opts of
                     None \<Rightarrow> opts\<lparr>c_format := Some (default_format (c_entries opts))\<rparr>
                   | Some f \<Rightarrow> opts);
          e = getEntry pk (c_entries opts1)
      in if c_format opts1 = Some Css \<and> e = None
         then Inl (TypeError ''Cannot read properties of undefined (reading replace)'')
         else
           (let key = (case e of
                         None \<Rightarrow> ''undefined''
                       | Some x \<Rightarrow> if c_format opts1 = Some Css then replace_rExt x ''.css'' else x)
            in case p_bundles pk key of
                 Some r \<Rightarrow> Inr (r, opts1, pk, heap)
               | None \<Rightarrow>
                   Inr (length heap, opts1, pk\<lparr>p_bundles := (p_bundles pk)(key \<mapsto> length heap)\<rparr>,
                        heap @ [new_Bundle ap pk opts1])))"

text \<open>The key under which \<open>create\<close> looks the bundle up.\<close>

definition bundle_key :: "packet \<Rightarrow> create_options \<Rightarrow> string" where
  "bundle_key pk opts =
     (let fmt = (case c_format opts of None \<Rightarrow> default_format (c_entries opts) | Some f \<Rightarrow> f)
      in case getEntry pk (c_entries opts) of
           None \<Rightarrow> ''undefined''
         | Some x \<Rightarrow> if fmt = Css then replace_rExt x ''.css'' else x)"

section \<open>The request handler of src/unnamed/part_003\<close>

text \<open>What \<open>parseId\<close> returns: the name, the version and the entry of an id.\<close>

record parsed_id =
  pi_name :: string
  pi_version :: string
  pi_entry :: string

text \<open>
  What the factory \<open>porter(opts)\<close> closes over, and the functions it requires from
  \<open>./lib\<close> and from Node: the source of the loader, the loader configuration and the
  system as \<open>JSON.stringify\<close> renders them, the times of modification, \<open>parseId\<close>,
  \<open>findComponent\<close> (the first path found, if any), \<open>findModule\<close> (the directory),
  \<open>transform\<close> (the code and the source map, from the id, the source and the path of
  the babelrc), \<open>matchRequire.findAll\<close>, \<open>define\<close>, the two postcss processors,
  \<open>mime.lookup\<close> and the md5 digest.
\<close>

record site =
  s_loaderSource :: string
  s_loaderConfig :: string
  s_system :: string
  s_serviceWorkerSource :: string
  s_loaderMtime :: string
  s_serviceWorkerMtime :: string
  s_serveSource :: bool
  s_root :: string
  s_paths :: "string list"
  s_pkg_name :: string
  s_system_name :: string
  s_system_version :: string
  s_system_modules :: "string list"
  s_transformModuleNames :: "string list"
  s_parseId :: "string \<Rightarrow> parsed_id"
  s_findComponent :: "string \<Rightarrow> string option"
  s_findModule :: "parsed_id \<Rightarrow> string"
  s_exists :: "string \<Rightarrow> bool"
  s_readFile :: "string \<Rightarrow> string"
  s_mtime :: "string \<Rightarrow> string"
  s_findBabelrc :: "string \<Rightarrow> string option"
  s_transform :: "string \<Rightarrow> string \<Rightarrow> string option \<Rightarrow> string \<times> string"
  s_findAll :: "string \<Rightarrow> string list"
  s_define :: "string \<Rightarrow> string list \<Rightarrow> string \<Rightarrow> string"
  s_importer :: "string \<Rightarrow> string \<Rightarrow> string"
  s_prefixer :: "string \<Rightarrow> string \<Rightarrow> string \<times> string"
  s_mime :: "string \<Rightarrow> string"
  s_md5 :: "string \<Rightarrow> int"

text \<open>
  The cache: what \<open>cache.read(id, source)\<close> finds, and the files written by
  \<open>cache.writeFile\<close>.
\<close>

record store =
  st_cache :: "string \<times> string \<rightharpoonup> string"
  st_files :: "(string \<times> string) list"

text \<open>
  \<open>id.replace(RE_EXT, '')\<close> with \<open>RE_EXT = /(\.\w+)$/i\<close> (part_003 line 326): the
  extension is removed; an id without one is left as it is.
\<close>

fun replace_RE_EXT :: "string \<Rightarrow> string" where
  "replace_RE_EXT [] = []"
| "replace_RE_EXT (c # cs) = (if is_ext (c # cs) then [] else c # replace_RE_EXT cs)"

text \<open>\<open>formatMain\<close> (part_003 lines 431 to 437).\<close>

definition formatMain :: "site \<Rightarrow> string \<Rightarrow> string \<Rightarrow> string" where
  "formatMain s ident content =
     s_loaderSource s @ [nl]
     @ ''porter.config('' @ s_loaderConfig s @ '')'' @ [nl]
     @ content @ [nl]
     @ ''porter['' @ [dq] @ ''import'' @ [dq] @ '']('' @ json_string (replace_RE_EXT ident) @ '')'' @ [nl]"

text \<open>
  The content of a script (part_003 lines 463 to 479 and 503 to 521): the cached code
  when the cache is consulted and holds code that is not empty, the source when the cache
  is not consulted and the source is not empty, and otherwise the code that \<open>transform\<close>
  returns, which is written to the cache with its source map.
\<close>

definition transpile :: "site \<Rightarrow> string \<Rightarrow> string \<Rightarrow> string option \<Rightarrow> bool \<Rightarrow> store \<Rightarrow> string \<times> store" where
  "transpile s ident source babelrcPath cached st =
     (let content = (if cached then st_cache st (ident, source) else Some source)
      in if content = None \<or> content = Some []
         then (let result = s_transform s ident source babelrcPath
               in (fst result,
                   st\<lparr>st_cache := (st_cache st)((ident, source) \<mapsto> fst result),
                      st_files := st_files st @ [(ident @ ''.map'', snd result)]\<rparr>))
         else (case content of None \<Rightarrow> ([], st) | Some c \<Rightarrow> (c, st)))"

text \<open>A response: the body and the headers.\<close>

type_synonym response = "string \<times> (string \<times> string) list"

text \<open>The module of a component (part_003 lines 450 to 456).\<close>

definition component_of :: "site \<Rightarrow> string \<Rightarrow> parsed_id" where
  "component_of s ident =
     (let m = s_parseId s ident
      in if pi_name m \<in> set (s_system_modules s) then m
         else \<lparr>pi_name = s_system_name s, pi_version = s_system_version s, pi_entry = ident\<rparr>)"

text \<open>\<open>readComponent\<close> (part_003 lines 449 to 491).\<close>

definition readComponent :: "site \<Rightarrow> string \<Rightarrow> bool \<Rightarrow> store \<Rightarrow> response option \<times> store" where
  "readComponent s ident isMain st =
     (let m = component_of s ident
      in case s_findComponent s (pi_entry m) of
           None \<Rightarrow> (None, st)
         | Some fpath \<Rightarrow>
             (let source = s_readFile s fpath;
                  babelrcPath = s_findBabelrc s fpath;
                  cs = transpile s ident source babelrcPath (babelrcPath \<noteq> None) st;
                  dependencies = s_findAll s (fst cs);
                  content = s_define s (replace_RE_EXT ident) dependencies (fst cs);
                  body = (if isMain then formatMain s ident content
                          else content @ [nl] @ ''//# sourceMappingURL=./'' @ basename ident @ ''.map'')
              in (Some (body, [(''Last-Modified'', s_mtime s fpath)]), snd cs)))"

text \<open>\<open>readModule\<close> (part_003 lines 493 to 529).\<close>

definition readModule :: "site \<Rightarrow> string \<Rightarrow> store \<Rightarrow> response option \<times> store" where
  "readModule s ident st =
     (let m = s_parseId s ident;
          fpath = path_join [s_findModule s m, pi_entry m];
          babelrcPath = s_findBabelrc s fpath;
          source = s_readFile s fpath;
          cs = transpile s ident source babelrcPath
                 (pi_name m \<in> set (s_transformModuleNames s) \<and> babelrcPath \<noteq> None) st;
          dependencies = s_findAll s (fst cs);
          content = s_define s (replace_RE_EXT ident) dependencies (fst cs)
      in (Some (content, [(''Last-Modified'', s_mtime s fpath)]), snd cs))"

text \<open>\<open>readScript\<close> (part_003 lines 439 to 447): it calls \<open>readModule\<close> without \<open>isMain\<close>.\<close>

definition readScript :: "site \<Rightarrow> string \<Rightarrow> bool \<Rightarrow> store \<Rightarrow> response option \<times> store" where
  "readScript s ident isMain st =
     (let m = s_parseId s ident
      in if pi_name m = s_pkg_name s \<or> pi_name m \<notin> set (s_system_modules s)
         then readComponent s ident isMain st
         else readModule s ident st)"

text \<open>\<open>readStyle\<close> (part_003 lines 534 to 570).\<close>

definition readStyle :: "site \<Rightarrow> string \<Rightarrow> store \<Rightarrow> response option \<times> store" where
  "readStyle s ident st =
     (let m = component_of s ident
      in case s_findComponent s (pi_entry m) of
           None \<Rightarrow> (None, st)
         | Some fpath \<Rightarrow>
             (let source = s_readFile s fpath;
                  css = s_importer s fpath source;
                  content = st_cache st (ident, css)
              in if content = None \<or> content = Some []
                 then (let r = s_prefixer s fpath css
                       in (Some (fst r, [(''Last-Modified'', s_mtime s fpath)]),
                           st\<lparr>st_cache := (st_cache st)((ident, css) \<mapsto> fst r),
                              st_files := st_files st @ [(ident @ ''.map'', snd r)]\<rparr>))
                 else (case content of
                         None \<Rightarrow> (None, st)
                       | Some c \<Rightarrow> (Some (c, [(''Last-Modified'', s_mtime s fpath)]), st))))"

text \<open>\<open>isSource\<close> and \<open>readSource\<close> (part_003 lines 572 to 591).\<close>

definition isSource :: "site \<Rightarrow> string \<Rightarrow> bool" where
  "isSource s ident \<longleftrightarrow>
     take 12 ident = ''node_modules''
     \<or> list_ex (\<lambda>base. take (length base) (path_join [s_root s, ident]) = base) (s_paths s)"

definition readSource :: "site \<Rightarrow> string \<Rightarrow> response option" where
  "readSource s ident =
     (let fpath = path_join [s_root s, ident]
      in if s_exists s fpath
         then Some (s_readFile s fpath, [(''Last-Modified'', s_mtime s fpath)])
         else None)"

text \<open>\<open>RE_ASSET_EXT.test(ext)\<close>, which ignores the case of the letters.\<close>

definition lower :: "char \<Rightarrow> char" where
  "lower c = (let n = (of_char c :: int) in if 65 \<le> n \<and> n \<le> 90 then char_of (n + 32) else c)"

definition is_asset_ext :: "string \<Rightarrow> bool" where
  "is_asset_ext ext \<longleftrightarrow>
     list_ex (\<lambda>e. length e + 1 \<le> length ext \<and> map lower (drop (length ext - (length e + 1)) ext) = CHR ''.'' # e)
       [''gif'', ''jpg'', ''jpeg'', ''png'', ''svg'', ''swf'', ''ico'']"

text \<open>\<open>readAsset\<close> (part_003 lines 593 to 648).\<close>

definition readAsset :: "site \<Rightarrow> string \<Rightarrow> bool \<Rightarrow> store \<Rightarrow> response option \<times> store" where
  "readAsset s ident isMain st =
     (let ext = extname ident;
          rs = (if ident = ''loader.js''
                then (Some ([nl] @ s_loaderSource s @ [nl] @ ''porter.config('' @ s_loaderConfig s @ '')'' @ [nl],
                            [(''Last-Modified'', s_loaderMtime s)]), st)
                else if ident = ''loaderConfig.json''
                then (Some (s_system s, [(''Last-Modified'', s_loaderMtime s)]), st)
                else if ident = ''porter-sw.js''
                then (Some (s_serviceWorkerSource s, [(''Last-Modified'', s_serviceWorkerMtime s)]), st)
                else if s_serveSource s \<and> isSource s ident then (readSource s ident, st)
                else if ext = ''.js'' then readScript s ident isMain st
                else if ext = ''.css'' then readStyle s ident st
                else if is_asset_ext ext
                then (case s_findComponent s ident of
                        None \<Rightarrow> (None, st)
                      | Some fpath \<Rightarrow> (Some (s_readFile s fpath, [(''Last-Modified'', s_mtime s fpath)]), st))
                else (None, st))
      in case fst rs of
           None \<Rightarrow> (None, snd rs)
         | Some r \<Rightarrow>
             (Some (fst r, snd r @ [(''Cache-Control'', ''max-age=0''), (''Content-Type'', s_mime s ext),
                                    (''ETag'', digest_hex (s_md5 s (fst r)))]),
              snd rs))"

section \<open>Example graphs\<close>

text \<open>
  Concrete modules, packets and bundles on which the theorems below are evaluated.
  \<open>mk_module\<close> is a module of packet 0 with every flag unset.
\<close>

definition mk_module :: "string \<Rightarrow> mref list \<Rightarrow> module" where
  "mk_module name cs =
     \<lparr>m_id = name, m_file = name, m_source = ''components/'' @ name, m_packet = 0,
      m_children = cs, m_instance = True, m_preloaded = False, m_isolated = False,
      m_isRootEntry = False, m_isPreload = False, m_isWorker = False, m_fake = False,
      m_lock = ''{}'', m_code = ''define('' @ json_string name @ '')'',
      m_minified = ''d('' @ json_string name @ '')''\<rparr>"

definition mk_packet :: "(string \<rightharpoonup> mref) \<Rightarrow> packet" where
  "mk_packet files =
     \<lparr>p_ref = 0, p_name = ''app'', p_version = ''1.0.0'', p_dir = ''/app'', p_main = ''index.js'',
      p_parent = None, p_isolated = False, p_files = files, p_entries = [],
      p_bundles = Map.empty, p_lock = ''{}'', p_loaderConfig = []\<rparr>"

definition mk_bundle :: "string list option \<Rightarrow> format \<Rightarrow> bundle" where
  "mk_bundle es fmt =
     \<lparr>b_packet = 0, b_entries = es, b_code = None, b_map = None, b_etag = None,
      b_contenthash = None, b_reloading = None, b_loaderConfig = None,
      b_loaderCache = Map.empty, b_scope = (if fmt = Css then ScopeAll else ScopePacket),
      b_format = fmt, b_updatedAt = None\<rparr>"

definition ex_env :: env where
  "ex_env =
     \<lparr>parseLoader = (\<lambda>cfg. ''LOADER''), uglify = (\<lambda>code. ''MIN''),
      searchParams = (\<lambda>cfg. concat (map (\<lambda>kv. fst kv @ ''='' @ snd kv @ ''&'') cfg)),
      md5 = (\<lambda>code. 0xd41d8cd98f00b204e9800998ecf8427e)\<rparr>"

definition ex_app :: app where
  "ex_app = \<lparr>a_root = ''/app'', a_preload = [], a_cache_path = ''/app/public''\<rparr>"

text \<open>\<open>home.js\<close> requires \<open>home_dep.js\<close>, which requires \<open>home.js\<close>: a cycle.\<close>

definition cyc_graph :: graph where
  "cyc_graph = \<lparr>g_modules = [mk_module ''home.js'' [1], mk_module ''home_dep.js'' [0]], g_isolated = []\<rparr>"

definition cyc_packet :: packet where
  "cyc_packet = mk_packet [''home.js'' \<mapsto> 0, ''home_dep.js'' \<mapsto> 1]"




text \<open>
  \<open>home.js\<close> and \<open>preload.js\<close> are root entries, \<open>preload.js\<close> is a preload entry;
  both require \<open>home_dep.js\<close>.
\<close>

definition home_module :: module where
  "home_module = (mk_module ''home.js'' [1])\<lparr>m_isRootEntry := True\<rparr>"

definition preload_module :: module where
  "preload_module = (mk_module ''preload.js'' [1])\<lparr>m_isRootEntry := True, m_isPreload := True\<rparr>"

definition root_graph :: graph where
  "root_graph = \<lparr>g_modules = [home_module, mk_module ''home_dep.js'' [0], preload_module], g_isolated = []\<rparr>"

definition root_packet :: packet where
  "root_packet = mk_packet [''home.js'' \<mapsto> 0, ''home_dep.js'' \<mapsto> 1, ''preload.js'' \<mapsto> 2]"

definition no_options :: options where
  "no_options = \<lparr>o_loader = None, o_minify = False\<rparr>"

text \<open>The packet \<open>yen\<close> at version 1.2.4, a dependency, with its entry \<open>index.js\<close>.\<close>

definition yen_graph :: graph where
  "yen_graph = \<lparr>g_modules = [(mk_module ''index.js'' [])\<lparr>m_packet := 1\<rparr>], g_isolated = []\<rparr>"

definition yen_packet :: packet where
  "yen_packet = (mk_packet [''index.js'' \<mapsto> 0])
     \<lparr>p_ref := 1, p_name := ''yen'', p_version := ''1.2.4'', p_parent := Some 0\<rparr>"


text \<open>The options \<open>{ packet, entries: ['home.js'] }\<close>.\<close>

definition home_options :: create_options where
  "home_options = \<lparr>c_entries = Some [''home.js''], c_format = None, c_loaderConfig = None,
                    c_all = False, c_package = None\<rparr>"



text \<open>
  A site whose package is \<open>app\<close>, with the dependency \<open>yen\<close>, no babelrc and every
  file reading \<open>SOURCE\<close>.
\<close>

definition ex_site :: site where
  "ex_site =
     \<lparr>s_loaderSource = ''LOADER'', s_loaderConfig = ''{}'', s_system = ''{}'',
      s_serviceWorkerSource = ''SW'', s_loaderMtime = ''t0'', s_serviceWorkerMtime = ''t0'',
      s_serveSource = False, s_root = ''/app'', s_paths = [''/app/components''],
      s_pkg_name = ''app'', s_system_name = ''app'', s_system_version = ''1.0.0'',
      s_system_modules = [''app'', ''yen''], s_transformModuleNames = [],
      s_parseId = (\<lambda>ident. if take 4 ident = ''yen/''
                             then \<lparr>pi_name = ''yen'', pi_version = ''1.2.4'', pi_entry = drop 10 ident\<rparr>
                             else \<lparr>pi_name = ''app'', pi_version = ''1.0.0'', pi_entry = ident\<rparr>),
      s_findComponent = (\<lambda>e. Some (''/app/components/'' @ e)),
      s_findModule = (\<lambda>m. ''/app/node_modules/yen''),
      s_exists = (\<lambda>p. True), s_readFile = (\<lambda>p. ''SOURCE''), s_mtime = (\<lambda>p. ''t1''),
      s_findBabelrc = (\<lambda>p. None),
      s_transform = (\<lambda>ident source rc. (source, ''{}'')),
      s_findAll = (\<lambda>code. []),
      s_define = (\<lambda>ident deps code. ''define('' @ json_string ident @ '', '' @ code @ '')''),
      s_importer = (\<lambda>p source. source), s_prefixer = (\<lambda>p css. (css, ''{}'')),
      s_mime = (\<lambda>ext. ''application/javascript''),
      s_md5 = (\<lambda>body. 0xd41d8cd98f00b204e9800998ecf8427e)\<rparr>"

definition empty_store :: store where
  "empty_store = \<lparr>st_cache = Map.empty, st_files = []\<rparr>"

section \<open>The claims\<close>

text \<open>
  C4. One iteration of a bundle terminates on every module graph, cyclic ones included:
  \<open>iterate\<close>, \<open>iterateEntry\<close> and \<open>iterate_entries\<close> are total functions. A module id
  is not yielded at most once, though, when the closures of two entries overlap: the loop
  over the entries does not look at \<open>done\<close>, as \<open>iterate\<close> does. With the entries
  \<open>home.js\<close> and \<open>home_dep.js\<close> of the cycle above, \<open>home_dep.js\<close> is yielded as a
  dependency of \<open>home.js\<close> and once more as an entry.
\<close>

theorem Symbol_iterator_entry_twice:
  "map_sum id (map m_id)
     (Symbol_iterator cyc_graph cyc_packet (mk_bundle (Some [''home.js'', ''home_dep.js'']) Js))
   = Inr [''home_dep.js'', ''home.js'', ''home_dep.js'']"
  by code_simp






text \<open>
  C1. When the first entry is absent from \<open>packet.files\<close> and the cached result is not
  returned, the loop over the entries throws before \<open>obtain\<close> reaches its own test
  on the format, whatever the format is.
\<close>

lemma entries_frame:
  "entries g (pk\<lparr>p_loaderConfig := cfg\<rparr>) (b\<lparr>b_updatedAt := t\<rparr>) = entries g pk b"
  by (cases "b_entries b") (simp_all add: entries_def)

lemma Symbol_iterator_frame:
  "Symbol_iterator g (pk\<lparr>p_loaderConfig := cfg\<rparr>) (b\<lparr>b_updatedAt := t\<rparr>) = Symbol_iterator g pk b"
  by (simp add: Symbol_iterator_def walk_of_def entries_frame)

lemma obtain_first_entry_absent:
  assumes "entries g pk b = name # names"
    and "files_at g (p_files pk) name = None"
    and "b_etag b \<noteq> Some (entries g pk b)"
  shows "fst (obtain ev ap g now opts (pk, b))
         = Inl (Error (''unparsed entry '' @ name @ '' ('' @ p_dir pk @ '')''))"
proof -
  have "Symbol_iterator g pk b = Inl (Error (''unparsed entry '' @ name @ '' ('' @ p_dir pk @ '')''))"
    using assms(1,2) by (simp add: Symbol_iterator_def walk_of_def)
  with assms(3) show ?thesis
    by (simp add: obtain_def Symbol_iterator_frame Let_def)
qed

text \<open>
  C1, at a bundle of format \<open>.css\<close> whose entry \<open>app.css\<close> is absent from the files:
  it fails as one of format \<open>.js\<close> does, and produces no empty result.
\<close>

theorem obtain_css_entry_absent:
  "fst (obtain ex_env ex_app cyc_graph 0 no_options (cyc_packet, mk_bundle (Some [''app.css'']) Css))
   = Inl (Error ''unparsed entry app.css (/app)'')"
  by code_simp

text \<open>
  C2. The test before the loader is prepended (bundle.js line 292) does not look at
  \<open>isPreload\<close>: the bundle of the root entry \<open>preload.js\<close>, a preload entry, starts
  with the loader and ends with the call of \<open>porter.import\<close>.
\<close>

theorem loader_for_preload_entry:
  "map_sum id r_code
     (fst (obtain ex_env ex_app root_graph 0 no_options (root_packet, mk_bundle (Some [''preload.js'']) Js)))
   = Inr (Some (join_nl [''LOADER'',
                         ''define('' @ json_string ''home.js'' @ '')'',
                         ''define('' @ json_string ''home_dep.js'' @ '')'',
                         ''define('' @ json_string ''preload.js'' @ '')'',
                         ''porter['' @ [dq] @ ''import'' @ [dq] @ '']('' @ json_string ''preload.js'' @ '')'']))
   \<and> map_option (\<lambda>m. (m_isRootEntry m, m_isPreload m))
         (files_at root_graph (p_files root_packet) ''preload.js'') = Some (True, True)"
  by code_simp

lemma minifyLoader_code:
  "fst (minifyLoader ev cfg b) =
     (case b_loaderCache b (searchParams ev cfg) of
        Some code \<Rightarrow> code | None \<Rightarrow> uglify ev (parseLoader ev cfg))"
  by (simp add: minifyLoader_def Let_def split: option.splits)

text \<open>
  C2, as amended. For a bundle of format \<open>.js\<close> that is built (the cached result is
  not returned, the traversal yields \<open>mods\<close> and the primary entry \<open>m\<close> is in the
  files), \<open>obtain\<close> prepends the source of the loader and appends the call of
  \<open>porter.import\<close> exactly when the primary entry is a root entry and the option
  \<open>loader\<close> is not false, whether the entry is a preload entry or not. What stands
  between them, \<open>base\<close>, is the lock, when the entry is a root entry and no preload,
  and the code of the modules; it does not depend on the option.
\<close>

theorem obtain_loader_iff:
  assumes "b_format b = Js"
    and "b_etag b \<noteq> Some (entries g pk b)"
    and "Symbol_iterator g pk b = Inr mods"
    and "files_at g (p_files pk) (case entries g pk b of [] \<Rightarrow> ''undefined'' | e # _ \<Rightarrow> e) = Some m"
  shows "\<exists>r. fst (obtain ev ap g now opts (pk, b)) = Inr r \<and>
     r_code r = Some (join_nl
       (let cfg = Object_assign (p_loaderConfig pk) (b_loaderConfig b);
            loader = (if o_minify opts
                      then (case b_loaderCache b (searchParams ev cfg) of
                              Some code \<Rightarrow> code | None \<Rightarrow> uglify ev (parseLoader ev cfg))
                      else parseLoader ev cfg);
            base = (if m_isRootEntry m \<and> \<not> m_isPreload m
                    then [snd (lock_node ap (pk\<lparr>p_loaderConfig := cfg\<rparr>) m)] else [])
                   @ map (\<lambda>x. if o_minify opts then m_minified x else m_code x) mods
        in if m_isRootEntry m \<and> o_loader opts \<noteq> Some False
           then loader # base @ [snd (import_node m)]
           else base))"
  using assms
  by (simp add: obtain_def Symbol_iterator_frame Let_def toStringWithSourceMap_def
      createSourceNode_def module_node_def minifyLoader_code obtainLoader_def comp_def
      split: option.splits)

theorem obtain_loader_iff_witness:
  "\<exists>r. fst (obtain ex_env ex_app root_graph 0 no_options
                (root_packet, mk_bundle (Some [''home.js'']) Js)) = Inr r \<and>
       r_code r = Some (join_nl [''LOADER'', ''Object.assign(porter.lock, {})'',
                                 ''define('' @ json_string ''home_dep.js'' @ '')'',
                                 ''define('' @ json_string ''home.js'' @ '')'',
                                 ''porter['' @ [dq] @ ''import'' @ [dq] @ '']('' @ json_string ''home.js'' @ '')''])"
proof -
  let ?b = "mk_bundle (Some [''home.js'']) Js"
  have h1: "b_format ?b = Js" by (simp add: mk_bundle_def)
  have h2: "b_etag ?b \<noteq> Some (entries root_graph root_packet ?b)" by (simp add: mk_bundle_def)
  have h3: "Symbol_iterator root_graph root_packet ?b = Inr [mk_module ''home_dep.js'' [0], home_module]"
    by code_simp
  have h4: "files_at root_graph (p_files root_packet)
              (case entries root_graph root_packet ?b of [] \<Rightarrow> ''undefined'' | e # _ \<Rightarrow> e)
            = Some home_module"
    by code_simp
  from obtain_loader_iff[OF h1 h2 h3 h4, of ex_env ex_app 0 no_options]
  show ?thesis
    by (simp add: no_options_def ex_env_def ex_app_def home_module_def mk_module_def lock_node_def
        import_node_def root_packet_def mk_packet_def mk_bundle_def Object_assign_def)
qed

text \<open>
  C5. The getters \<open>contenthash\<close> and \<open>output\<close> return the empty string when the code
  is empty. The bundle of format \<open>.css\<close> of the entry \<open>home.js\<close>, which has no
  stylesheet among its dependencies, is obtained with the empty code: its content hash
  is empty, not the first eight digits of the digest of the code, and so is its output.
\<close>

theorem empty_code_no_contenthash:
  "map_sum id r_code
     (fst (obtain ex_env ex_app root_graph 0 no_options (root_packet, mk_bundle (Some [''home.js'']) Css)))
     = Inr (Some []) \<and>
   fst (contenthash ex_env
          (snd (snd (obtain ex_env ex_app root_graph 0 no_options
                       (root_packet, mk_bundle (Some [''home.js'']) Css))))) = [] \<and>
   take 8 (digest_hex (md5 ex_env [])) = ''d41d8cd9'' \<and>
   fst (output ex_env root_graph
          (fst (snd (obtain ex_env ex_app root_graph 0 no_options
                       (root_packet, mk_bundle (Some [''home.js'']) Css))))
          (snd (snd (obtain ex_env ex_app root_graph 0 no_options
                       (root_packet, mk_bundle (Some [''home.js'']) Css))))) = Inr []"
  by code_simp

text \<open>\<open>path.join\<close> leaves a path of names as it is.\<close>

lemma split_slash_not_Nil: "split_slash p \<noteq> []"
  by (induction p) (auto split: list.splits)

lemma split_slash_append:
  "split_slash (a @ CHR ''/'' # b) = split_slash a @ split_slash b"
proof (induction a)
  case Nil
  then show ?case by simp
next
  case (Cons c cs)
  then show ?case using split_slash_not_Nil[of cs]
    by (cases "split_slash cs") auto
qed

lemma join_slash_Cons: "ws \<noteq> [] \<Longrightarrow> join_slash ((c # w) # tl ws) = c # join_slash (w # tl ws)"
  by (cases "tl ws") auto

lemma join_slash_Cons': "join_slash ((c # w) # ws) = c # join_slash (w # ws)"
  by (cases ws) auto

lemma join_slash_empty_Cons: "ws \<noteq> [] \<Longrightarrow> join_slash ([] # ws) = CHR ''/'' # join_slash ws"
  by (cases ws) auto

lemma join_split_slash: "join_slash (split_slash p) = p"
proof (induction p)
  case Nil
  then show ?case by simp
next
  case (Cons c cs)
  show ?case
  proof (cases "c = CHR ''/''")
    case True
    with Cons split_slash_not_Nil[of cs] show ?thesis by (simp add: join_slash_empty_Cons)
  next
    case False
    obtain w ws where sp: "split_slash cs = w # ws"
      using split_slash_not_Nil[of cs] by (cases "split_slash cs") auto
    with Cons False show ?thesis by (simp add: join_slash_Cons')
  qed
qed

lemma foldl_normalize_clean:
  "list_all clean_segment segs \<Longrightarrow> foldl (normalize_step allow) res segs = rev segs @ res"
  by (induction segs arbitrary: res) (auto simp: normalize_step_def clean_segment_def)

lemma clean_path_not_Nil: "clean_path p \<Longrightarrow> p \<noteq> []"
  by (auto simp: clean_path_def clean_segment_def)

lemma clean_path_hd: "clean_path p \<Longrightarrow> hd p \<noteq> CHR ''/''"
  by (cases p) (auto simp: clean_path_def clean_segment_def)

lemma split_slash_single_empty: "split_slash p = [[]] \<Longrightarrow> p = []"
  using split_slash_not_Nil[of "tl p"] by (cases p) (auto split: if_splits list.splits)

lemma last_split_slash: "p \<noteq> [] \<Longrightarrow> last p = CHR ''/'' \<Longrightarrow> last (split_slash p) = []"
proof (induction p)
  case Nil
  then show ?case by simp
next
  case (Cons c cs)
  show ?case
  proof (cases cs)
    case Nil
    with Cons show ?thesis by simp
  next
    case (Cons d ds)
    with Cons.IH Cons.prems have "last (split_slash cs) = []" by simp
    then show ?thesis using split_slash_not_Nil[of cs] split_slash_single_empty[of cs] Cons
      by (cases "split_slash cs") (auto split: if_splits)
  qed
qed

lemma clean_path_last: "clean_path p \<Longrightarrow> last p \<noteq> CHR ''/''"
proof
  assume c: "clean_path p" and l: "last p = CHR ''/''"
  from c have "p \<noteq> []" by (rule clean_path_not_Nil)
  from last_split_slash[OF this l] have "[] \<in> set (split_slash p)"
    using split_slash_not_Nil[of p] last_in_set[of "split_slash p"] by auto
  with c show False by (auto simp: clean_path_def clean_segment_def list_all_iff)
qed

lemma path_normalize_clean: "clean_path p \<Longrightarrow> path_normalize p = p"
  using clean_path_not_Nil[of p] clean_path_hd[of p] clean_path_last[of p]
  by (simp add: path_normalize_def normalizeString_def clean_path_def foldl_normalize_clean
      join_split_slash Let_def)

lemma path_join_clean:
  assumes "clean_path a" and "clean_path b" and "clean_path c"
  shows "path_join [a, b, c] = a @ ''/'' @ b @ ''/'' @ c"
proof -
  have "clean_path (a @ CHR ''/'' # b @ CHR ''/'' # c)"
    using assms by (simp add: clean_path_def split_slash_append)
  then have "path_normalize (a @ CHR ''/'' # b @ CHR ''/'' # c) = a @ CHR ''/'' # b @ CHR ''/'' # c"
    by (rule path_normalize_clean)
  with assms show ?thesis
    using clean_path_not_Nil[of a] clean_path_not_Nil[of b] clean_path_not_Nil[of c]
    by (simp add: path_join_def)
qed


text \<open>What \<open>obtain\<close> leaves in the bundle and the packet.\<close>

lemma obtain_cached:
  assumes "obtain ev ap g now opts (pk, b) = (Inr r, pk', b')"
    and "b_etag b = Some (entries g pk b)"
  shows "pk' = pk \<and> b' = b \<and> r_code r = b_code b"
  using assms by (auto simp: obtain_def Let_def)

lemma minifyLoader_frame:
  "b_entries (snd (minifyLoader ev cfg b)) = b_entries b \<and>
   b_format (snd (minifyLoader ev cfg b)) = b_format b"
  by (simp add: minifyLoader_def Let_def split: option.splits)

lemma obtain_built:
  assumes "obtain ev ap g now opts (pk, b) = (Inr r, pk', b')"
    and "b_etag b \<noteq> Some (entries g pk b)"
  shows "b_code b' = r_code r \<and> b_contenthash b' = None \<and> b_entries b' = b_entries b
         \<and> b_format b' = b_format b
         \<and> pk' = pk\<lparr>p_loaderConfig := Object_assign (p_loaderConfig pk) (b_loaderConfig b)\<rparr>"
proof (cases "Symbol_iterator g pk b")
  case (Inl e)
  with assms show ?thesis by (simp add: obtain_def Let_def Symbol_iterator_frame)
next
  case (Inr mods)
  show ?thesis
  proof (cases "files_at g (p_files pk) (case entries g pk b of [] \<Rightarrow> ''undefined'' | e # _ \<Rightarrow> e)")
    case None
    with assms Inr show ?thesis by (simp add: obtain_def Let_def Symbol_iterator_frame)
  next
    case (Some m)
    with assms Inr show ?thesis
      using minifyLoader_frame[of ev "Object_assign (p_loaderConfig pk) (b_loaderConfig b)" "b\<lparr>b_updatedAt := Some now\<rparr>"]
      by (auto simp: obtain_def Let_def Symbol_iterator_frame)
  qed
qed

lemma entries_nonempty_entry:
  "entries g pk b \<noteq> [] \<Longrightarrow> \<exists>e. entry pk b = Some e"
  by (cases "b_entries b") (auto simp: entry_def getEntry_def entries_def split: list.splits)

lemma entries_config_frame:
  "entries g (pk\<lparr>p_loaderConfig := cfg\<rparr>) b = entries g pk b"
  by (cases "b_entries b") (simp_all add: entries_def)

lemma entries_cong:
  "b_entries b' = b_entries b \<Longrightarrow> entries g pk b' = entries g pk b"
  by (simp add: entries_def)

text \<open>
  C5, as amended. After a successful \<open>obtain\<close> that produces code that is not empty,
  for a bundle with at least one entry, \<open>contenthash\<close> is the first eight hexadecimal
  digits of the md5 digest of the code, \<open>output\<close> is the entry with its extension
  replaced by a dot, the content hash and the format, and \<open>outputPath\<close> is
  \<open>path.join(name, version, output)\<close> when the packet has a parent and \<open>output\<close>
  otherwise; the joined path is \<open>name/version/output\<close> when the three are paths of
  names.
\<close>

theorem obtain_output_identity:
  assumes ob: "obtain ev ap g now opts (pk, b) = (Inr r, pk', b')"
    and code: "r_code r = Some code" "code \<noteq> []"
    and es: "entries g pk b \<noteq> []"
    and inv: "hash_consistent ev b"
  shows "\<exists>e. entry pk b = Some e \<and>
     (let hash = take 8 (digest_hex (md5 ev code));
          out = replace_rExt e (''.'' @ hash @ format_ext (b_format b))
      in fst (contenthash ev b') = hash \<and>
         fst (output ev g pk' b') = Inr out \<and>
         fst (outputPath ev g pk' b')
           = Inr (if p_parent pk \<noteq> None then path_join [p_name pk, p_version pk, out] else out) \<and>
         (clean_path (p_name pk) \<and> clean_path (p_version pk) \<and> clean_path out \<longrightarrow>
            path_join [p_name pk, p_version pk, out] = p_name pk @ ''/'' @ p_version pk @ ''/'' @ out))"
proof -
  from entries_nonempty_entry[OF es] obtain e where e: "entry pk b = Some e" by blast
  let ?hash = "take 8 (digest_hex (md5 ev code))"
  have st: "b_code b' = Some code \<and> b_entries b' = b_entries b \<and> b_format b' = b_format b
            \<and> hash_consistent ev b' \<and> entries g pk' b' = entries g pk b
            \<and> p_parent pk' = p_parent pk \<and> p_name pk' = p_name pk \<and> p_version pk' = p_version pk
            \<and> entry pk' b' = entry pk b"
  proof (cases "b_etag b = Some (entries g pk b)")
    case True
    from obtain_cached[OF ob True] code inv show ?thesis by simp
  next
    case False
    from obtain_built[OF ob False] code
    have bb: "b_code b' = Some code" "b_contenthash b' = None" "b_entries b' = b_entries b"
      "b_format b' = b_format b"
      "pk' = pk\<lparr>p_loaderConfig := Object_assign (p_loaderConfig pk) (b_loaderConfig b)\<rparr>"
      by simp_all
    have "hash_consistent ev b'" using bb(2) by (simp add: hash_consistent_def)
    moreover have "entries g pk' b' = entries g pk b"
      using entries_cong[OF bb(3), of g pk'] by (simp add: bb(5) entries_config_frame)
    moreover have "entry pk' b' = entry pk b"
      by (cases "b_entries b") (simp_all add: entry_def getEntry_def bb(3) bb(5))
    ultimately show ?thesis using bb by simp
  qed
  have h: "fst (contenthash ev b') = ?hash"
    using st code(2) by (auto simp: contenthash_def hash_consistent_def Let_def split: option.splits)
  have fmt: "b_format (snd (contenthash ev b')) = b_format b'"
    by (auto simp: contenthash_def Let_def split: option.splits)
  have o: "fst (output ev g pk' b') = Inr (replace_rExt e (''.'' @ ?hash @ format_ext (b_format b)))"
    using st code(2) es e h by (simp add: output_def Let_def)
  have op: "fst (outputPath ev g pk' b')
      = Inr (if p_parent pk \<noteq> None
             then path_join [p_name pk, p_version pk, replace_rExt e (''.'' @ ?hash @ format_ext (b_format b))]
             else replace_rExt e (''.'' @ ?hash @ format_ext (b_format b)))"
    using o st by (cases "output ev g pk' b'") (auto simp: outputPath_def)
  from e h o op show ?thesis
    by (auto simp: Let_def path_join_clean)
qed


theorem obtain_output_identity_witness:
  "fst (contenthash ex_env
          (snd (snd (obtain ex_env ex_app yen_graph 0 no_options (yen_packet, mk_bundle (Some [''index.js'']) Js)))))
     = ''d41d8cd9'' \<and>
   fst (output ex_env yen_graph
          (fst (snd (obtain ex_env ex_app yen_graph 0 no_options (yen_packet, mk_bundle (Some [''index.js'']) Js))))
          (snd (snd (obtain ex_env ex_app yen_graph 0 no_options (yen_packet, mk_bundle (Some [''index.js'']) Js)))))
     = Inr ''index.d41d8cd9.js'' \<and>
   fst (outputPath ex_env yen_graph
          (fst (snd (obtain ex_env ex_app yen_graph 0 no_options (yen_packet, mk_bundle (Some [''index.js'']) Js))))
          (snd (snd (obtain ex_env ex_app yen_graph 0 no_options (yen_packet, mk_bundle (Some [''index.js'']) Js)))))
     = Inr ''yen/1.2.4/index.d41d8cd9.js''"
proof -
  let ?b = "mk_bundle (Some [''index.js'']) Js"
  let ?X = "obtain ex_env ex_app yen_graph 0 no_options (yen_packet, ?b)"
  let ?code = "''define('' @ json_string ''index.js'' @ '')''"
  let ?r = "\<lparr>r_code = Some ?code, r_map = Some [''components/index.js'']\<rparr>"
  have f: "fst ?X = Inr ?r" by code_simp
  have h1: "?X = (Inr ?r, fst (snd ?X), snd (snd ?X))" using f by (simp add: prod_eq_iff)
  have h2: "r_code ?r = Some ?code" by simp
  have h3: "?code \<noteq> []" by simp
  have h4: "entries yen_graph yen_packet ?b \<noteq> []" by (simp add: entries_def mk_bundle_def)
  have h5: "hash_consistent ex_env ?b" by (simp add: hash_consistent_def mk_bundle_def)
  have e: "entry yen_packet ?b = Some ''index.js''" by code_simp
  have d: "take 8 (digest_hex (md5 ex_env ?code)) = ''d41d8cd9''" by code_simp
  have rp: "replace_rExt ''index.js'' (''.'' @ ''d41d8cd9'' @ format_ext (b_format ?b)) = ''index.d41d8cd9.js''"
    by code_simp
  have pj: "(if p_parent yen_packet \<noteq> None
             then path_join [p_name yen_packet, p_version yen_packet, ''index.d41d8cd9.js'']
             else ''index.d41d8cd9.js'') = ''yen/1.2.4/index.d41d8cd9.js''"
    by code_simp
  from obtain_output_identity[OF h1 h2 h3 h4 h5] obtain e' where
    E: "entry yen_packet ?b = Some e'" and
    C: "let hash = take 8 (digest_hex (md5 ex_env ?code));
            out = replace_rExt e' (''.'' @ hash @ format_ext (b_format ?b))
        in fst (contenthash ex_env (snd (snd ?X))) = hash \<and>
           fst (output ex_env yen_graph (fst (snd ?X)) (snd (snd ?X))) = Inr out \<and>
           fst (outputPath ex_env yen_graph (fst (snd ?X)) (snd (snd ?X)))
             = Inr (if p_parent yen_packet \<noteq> None
                    then path_join [p_name yen_packet, p_version yen_packet, out] else out) \<and>
           (clean_path (p_name yen_packet) \<and> clean_path (p_version yen_packet) \<and> clean_path out \<longrightarrow>
              path_join [p_name yen_packet, p_version yen_packet, out]
                = p_name yen_packet @ ''/'' @ p_version yen_packet @ ''/'' @ out)"
    by blast
  have e': "e' = ''index.js''" using E e by simp
  note C' = C[unfolded Let_def e' d rp pj]
  from C' show ?thesis by blast
qed


lemma minifyLoader_cong:
  "b_loaderCache b1 = b_loaderCache b2 \<Longrightarrow> fst (minifyLoader ev cfg b1) = fst (minifyLoader ev cfg b2)"
  by (simp add: minifyLoader_code)







text \<open>What a successful \<open>create\<close> leaves behind.\<close>

lemma create_Inr:
  assumes "create ap opts (pk, heap) = Inr (r, opts', pk', heap')"
  shows "p_bundles pk' (bundle_key pk opts) = Some r
         \<and> p_bundles pk \<subseteq>\<^sub>m p_bundles pk' \<and> take (length heap) heap' = heap
         \<and> c_entries opts' = c_entries opts
         \<and> c_format opts' = Some (case c_format opts of None \<Rightarrow> default_format (c_entries opts) | Some f \<Rightarrow> f)
         \<and> p_parent pk' = p_parent pk \<and> p_main pk' = p_main pk"
  using assms
  by (cases "c_format opts")
     (auto simp: create_def bundle_key_def Let_def map_le_def split: if_splits option.splits)


lemma getEntry_frame:
  "p_parent pk' = p_parent pk \<Longrightarrow> p_main pk' = p_main pk \<Longrightarrow> getEntry pk' es = getEntry pk es"
  by (cases es) (simp_all add: getEntry_def)

lemma create_no_error:
  assumes "create ap opts (pk, heap) = Inr x"
  shows "\<not> ((case c_format opts of None \<Rightarrow> default_format (c_entries opts) | Some f \<Rightarrow> f) = Css
            \<and> getEntry pk (c_entries opts) = None)"
  using assms by (cases "c_format opts") (auto simp: create_def Let_def split: if_splits)

lemma create_existing:
  assumes "p_bundles pk (bundle_key pk opts) = Some r"
    and "\<not> ((case c_format opts of None \<Rightarrow> default_format (c_entries opts) | Some f \<Rightarrow> f) = Css
            \<and> getEntry pk (c_entries opts) = None)"
  shows "\<exists>opts'. create ap opts (pk, heap) = Inr (r, opts', pk, heap)"
  using assms
  by (cases "c_format opts") (auto simp: create_def bundle_key_def Let_def split: option.splits)

text \<open>
  C10. \<open>Bundle.create\<close> is idempotent per key. After a call that succeeds, a second
  call on the same packet with the same entries and the same format (the format the
  first call was given, or the one it left in the options) returns the same bundle
  object and changes neither \<open>packet.bundles\<close> nor any bundle. \<open>packet.bundles\<close> is a
  mapping, so it holds one bundle for a key; a call keeps every bundle the mapping held
  (\<open>p_bundles pk \<subseteq>\<^sub>m p_bundles pk'\<close>) and every bundle object as it was.
\<close>

theorem create_idempotent:
  assumes "create ap opts (pk, heap) = Inr (r, opts', pk', heap')"
    and "c_entries opts2 = c_entries opts"
    and "c_format opts2 = c_format opts \<or> c_format opts2 = c_format opts'"
  shows "(\<exists>opts2'. create ap opts2 (pk', heap') = Inr (r, opts2', pk', heap'))
         \<and> p_bundles pk \<subseteq>\<^sub>m p_bundles pk' \<and> take (length heap) heap' = heap"
proof -
  note facts = create_Inr[OF assms(1)]
  let ?fmt = "\<lambda>x. case c_format x of None \<Rightarrow> default_format (c_entries x) | Some f \<Rightarrow> f"
  have fmt: "?fmt opts2 = ?fmt opts"
    using assms(2,3) facts by (auto split: option.splits)
  have ge: "getEntry pk' (c_entries opts2) = getEntry pk (c_entries opts)"
    using facts assms(2) getEntry_frame[of pk' pk "c_entries opts"] by simp
  have key: "bundle_key pk' opts2 = bundle_key pk opts"
    using fmt ge by (simp add: bundle_key_def)
  have ne: "\<not> (?fmt opts2 = Css \<and> getEntry pk' (c_entries opts2) = None)"
    using create_no_error[OF assms(1)] fmt ge by simp
  from facts key have "p_bundles pk' (bundle_key pk' opts2) = Some r" by simp
  from create_existing[OF this ne, of ap heap'] facts show ?thesis by blast
qed

theorem create_idempotent_witness:
  "(\<exists>opts2'. create ex_app home_options
       (root_packet\<lparr>p_bundles := [''home.js'' \<mapsto> 0]\<rparr>,
        [new_Bundle ex_app root_packet (home_options\<lparr>c_format := Some Js\<rparr>)])
     = Inr (0, opts2', root_packet\<lparr>p_bundles := [''home.js'' \<mapsto> 0]\<rparr>,
            [new_Bundle ex_app root_packet (home_options\<lparr>c_format := Some Js\<rparr>)]))
   \<and> p_bundles root_packet \<subseteq>\<^sub>m [''home.js'' \<mapsto> 0]
   \<and> take (length ([] :: bundle list))
        [new_Bundle ex_app root_packet (home_options\<lparr>c_format := Some Js\<rparr>)] = []"
proof -
  have ext: "extname ''home.js'' = ''.js''" by code_simp
  have h1: "create ex_app home_options (root_packet, [])
            = Inr (0, home_options\<lparr>c_format := Some Js\<rparr>,
                   root_packet\<lparr>p_bundles := [''home.js'' \<mapsto> 0]\<rparr>,
                   [new_Bundle ex_app root_packet (home_options\<lparr>c_format := Some Js\<rparr>)])"
    by (simp add: create_def home_options_def default_format_def ext getEntry_def
        root_packet_def mk_packet_def Let_def)
  have h2: "c_entries home_options = c_entries home_options" by simp
  have h3: "c_format home_options = c_format home_options
            \<or> c_format home_options = c_format (home_options\<lparr>c_format := Some Js\<rparr>)" by simp
  from create_idempotent[OF h1 h2 h3] show ?thesis
    by (simp add: root_packet_def mk_packet_def)
qed













text \<open>
  What the request handler of part_003 answers to \<open>?main\<close>. For an id with the
  extension \<open>.js\<close> that is none of the special ids, is not served as source, belongs
  to the package of the application or to no known module, and whose component is found,
  the body is the source of the loader, the call of \<open>porter.config\<close> with the loader
  configuration, the module as \<open>define\<close> wraps it, and the call of \<open>porter.import\<close>,
  each followed by a newline. The argument of that call is \<open>id.replace(RE_EXT, '')\<close>
  (line 435), not the id.
\<close>

lemma readAsset_main_component:
  assumes "ident \<noteq> ''loader.js''" and "ident \<noteq> ''loaderConfig.json''" and "ident \<noteq> ''porter-sw.js''"
    and "\<not> (s_serveSource s \<and> isSource s ident)"
    and "extname ident = ''.js''"
    and "pi_name (s_parseId s ident) = s_pkg_name s \<or> pi_name (s_parseId s ident) \<notin> set (s_system_modules s)"
    and "s_findComponent s (pi_entry (component_of s ident)) = Some fpath"
  shows "\<exists>content headers st'.
           readAsset s ident True st = (Some (s_loaderSource s @ [nl]
                 @ ''porter.config('' @ s_loaderConfig s @ '')'' @ [nl]
                 @ content @ [nl]
                 @ ''porter['' @ [dq] @ ''import'' @ [dq] @ '']('' @ json_string (replace_RE_EXT ident) @ '')'' @ [nl],
               headers), st')
           \<and> content = s_define s (replace_RE_EXT ident)
                 (s_findAll s (fst (transpile s ident (s_readFile s fpath) (s_findBabelrc s fpath)
                                      (s_findBabelrc s fpath \<noteq> None) st)))
                 (fst (transpile s ident (s_readFile s fpath) (s_findBabelrc s fpath)
                         (s_findBabelrc s fpath \<noteq> None) st))"
proof -
  from assms(4) have src: "(s_serveSource s \<and> isSource s ident) = False" by simp
  show ?thesis
    using assms(1,2,3,5,6,7)
    by (simp add: readAsset_def src readScript_def readComponent_def formatMain_def Let_def)
qed

lemma readAsset_main_component_home:
  "\<exists>headers st'.
     readAsset ex_site ''home.js'' True empty_store
     = (Some (s_loaderSource ex_site @ [nl]
              @ ''porter.config('' @ s_loaderConfig ex_site @ '')'' @ [nl]
              @ (''define('' @ json_string ''home'' @ '', SOURCE)'') @ [nl]
              @ ''porter['' @ [dq] @ ''import'' @ [dq] @ '']('' @ json_string (replace_RE_EXT ''home.js'') @ '')'' @ [nl],
              headers), st')"
proof -
  have h1: "''home.js'' \<noteq> ''loader.js''" "''home.js'' \<noteq> ''loaderConfig.json''"
    "''home.js'' \<noteq> ''porter-sw.js''" by simp_all
  have h4: "\<not> (s_serveSource ex_site \<and> isSource ex_site ''home.js'')" by (simp add: ex_site_def)
  have h5: "extname ''home.js'' = ''.js''" by code_simp
  have h6: "pi_name (s_parseId ex_site ''home.js'') = s_pkg_name ex_site
            \<or> pi_name (s_parseId ex_site ''home.js'') \<notin> set (s_system_modules ex_site)"
    by (simp add: ex_site_def)
  have h7: "s_findComponent ex_site (pi_entry (component_of ex_site ''home.js'')) = Some ''/app/components/home.js''"
    by code_simp
  have c: "s_define ex_site (replace_RE_EXT ''home.js'')
             (s_findAll ex_site (fst (transpile ex_site ''home.js'' (s_readFile ex_site ''/app/components/home.js'')
                                        (s_findBabelrc ex_site ''/app/components/home.js'')
                                        (s_findBabelrc ex_site ''/app/components/home.js'' \<noteq> None) empty_store)))
             (fst (transpile ex_site ''home.js'' (s_readFile ex_site ''/app/components/home.js'')
                     (s_findBabelrc ex_site ''/app/components/home.js'')
                     (s_findBabelrc ex_site ''/app/components/home.js'' \<noteq> None) empty_store))
           = ''define('' @ json_string ''home'' @ '', SOURCE)''"
    by code_simp
  from readAsset_main_component[OF h1 h4 h5 h6 h7, of empty_store] show ?thesis
    unfolding c by blast
qed


end
